theory Spec2Isabelle
  imports Main "HOL-Library.AList" "HOL-Library.Char_ord" "HOL-Library.List_Lexorder"
begin

section \<open>Values carried by a future\<close>

text \<open>
  A Python float: a finite double \<open>m * 2 ^ e\<close>, or one of the three values that JSON
  proper cannot express. Nothing below computes with the finite ones.
\<close>

datatype pyfloat =
    Finite int int
  | NaN
  | Infinity
  | NegInfinity

text \<open>
  Payloads and results are JSON-like Python values. \<open>JNull\<close> is Python's \<open>None\<close>.
\<close>

datatype json =
    JNull
  | JBool bool
  | JInt int
  | JFloat pyfloat
  | JStr string
  | JList "json list"
  | JDict "(string \<times> json) list"

text \<open>
  What \<open>update_status\<close> can be handed as \<open>result\<close>: a plain value (\<open>None\<close> is
  \<open>Plain JNull\<close>), an object with a \<open>model_dump\<close> method (Pydantic v2) or an object with a
  \<open>dict\<close> method (Pydantic v1). The argument of the last two is what the method returns.
\<close>

datatype pyobj =
    Plain json
  | PydanticV2 json
  | PydanticV1 json

text \<open>Python truthiness, as used by \<open>if x\<close> and \<open>x or y\<close>.\<close>

fun truthy :: "json \<Rightarrow> bool" where
  "truthy JNull = False"
| "truthy (JBool b) = b"
| "truthy (JInt i) = (i \<noteq> 0)"
| "truthy (JFloat (Finite m e)) = (m \<noteq> 0)"
| "truthy (JFloat x) = True"
| "truthy (JStr s) = (s \<noteq> [])"
| "truthy (JList xs) = (xs \<noteq> [])"
| "truthy (JDict kvs) = (kvs \<noteq> [])"

text \<open>
  The \<open>json\<close> module of the standard library is not part of the repository: \<open>json.dumps\<close>
  and \<open>json.loads\<close> are parameters of the model. \<open>json_loads\<close> gives \<open>Inl msg\<close> where
  \<open>json.loads\<close> raises \<open>JSONDecodeError\<close>.
\<close>

record codec =
  json_dumps :: "json \<Rightarrow> string"
  json_loads :: "string \<Rightarrow> string + json"

datatype error =
    StorageFailure string
  | JSONDecodeError string
  | KeyError string
  | ValueError string
  | WorkException string
  | WorkBaseException string

text \<open>\<open>str(e)\<close> of a raised exception.\<close>

fun str_of_error :: "error \<Rightarrow> string" where
  "str_of_error (StorageFailure m) = m"
| "str_of_error (JSONDecodeError m) = m"
| "str_of_error (KeyError k) = [CHR 0x27] @ k @ [CHR 0x27]"
| "str_of_error (ValueError m) = m"
| "str_of_error (WorkException m) = m"
| "str_of_error (WorkBaseException m) = m"

text \<open>
  What an \<open>except Exception\<close> clause catches: everything but an exception that derives
  from \<open>BaseException\<close> only (\<open>asyncio.CancelledError\<close>, \<open>KeyboardInterrupt\<close>,
  \<open>SystemExit\<close>).
\<close>

fun is_Exception :: "error \<Rightarrow> bool" where
  "is_Exception (WorkBaseException m) = False"
| "is_Exception e = True"

section \<open>FuturesStorage (storage/futures.py)\<close>

text \<open>The dict kept per future in \<open>_memory_store\<close> and returned by \<open>get_future\<close>.\<close>

record future =
  request_id :: string
  model_id :: "string option"
  operation :: string
  payload :: json
  status :: string
  result :: json
  created_at :: string
  updated_at :: string

text \<open>A row of the SQLite table \<open>futures\<close>; \<open>payload\<close> and \<open>result\<close> are JSON text.\<close>

record row =
  col_request_id :: string
  col_model_id :: "string option"
  col_operation :: string
  col_payload :: string
  col_status :: string
  col_result :: "string option"
  col_created_at :: string
  col_updated_at :: string

text \<open>
  The store: the in-memory dict (insertion-ordered, as a Python dict), the table, and the
  condition of the database file. With \<open>db_error = Some m\<close> every database access raises
  \<open>sqlite3.Error\<close> with message \<open>m\<close>. Timestamps are the ISO-8601 strings that
  \<open>datetime.utcnow().isoformat()\<close> yields; the clock readings are arguments of the
  operations.
\<close>

record FuturesStorage =
  memory_store :: "(string \<times> future) list"
  futures_table :: "row list"
  db_error :: "string option"

fun serialize_result :: "codec \<Rightarrow> pyobj \<Rightarrow> string option" where
  "serialize_result c (Plain JNull) = None"
| "serialize_result c (PydanticV2 m) = Some (json_dumps c m)"
| "serialize_result c (PydanticV1 m) = Some (json_dumps c m)"
| "serialize_result c (Plain v) = Some (json_dumps c v)"

text \<open>\<open>INSERT OR REPLACE\<close> on the primary key \<open>request_id\<close>.\<close>

definition insert_or_replace :: "row \<Rightarrow> row list \<Rightarrow> row list" where
  "insert_or_replace r rows =
     filter (\<lambda>x. col_request_id x \<noteq> col_request_id r) rows @ [r]"

definition save_future ::
  "codec \<Rightarrow> string \<Rightarrow> string \<Rightarrow> string \<Rightarrow> string \<Rightarrow> json \<Rightarrow> string option \<Rightarrow>
   FuturesStorage \<Rightarrow> (error + unit) \<times> FuturesStorage" where
  "save_future c t_created t_updated rid op pl mid s =
     (let future_data = \<lparr>request_id = rid, model_id = mid, operation = op, payload = pl,
                          status = ''pending'', result = JNull,
                          created_at = t_created, updated_at = t_updated\<rparr>;
          s1 = s\<lparr>memory_store := AList.update rid future_data (memory_store s)\<rparr>
      in case db_error s1 of
           Some m \<Rightarrow> (Inl (StorageFailure m), s1)
         | None \<Rightarrow>
             (Inr (),
              s1\<lparr>futures_table := insert_or_replace
                 \<lparr>col_request_id = rid, col_model_id = mid, col_operation = op,
                  col_payload = json_dumps c pl, col_status = status future_data,
                  col_result = None, col_created_at = created_at future_data,
                  col_updated_at = updated_at future_data\<rparr> (futures_table s1)\<rparr>))"

text \<open>\<open>_load_from_db\<close>: the row of \<open>request_id\<close> decoded, \<open>None\<close> when there is none.\<close>

definition load_from_db :: "codec \<Rightarrow> string \<Rightarrow> FuturesStorage \<Rightarrow> error + future option" where
  "load_from_db c rid s =
     (case db_error s of
        Some m \<Rightarrow> Inl (StorageFailure m)
      | None \<Rightarrow>
          (case find (\<lambda>r. col_request_id r = rid) (futures_table s) of
             None \<Rightarrow> Inr None
           | Some r \<Rightarrow>
               (case json_loads c (col_payload r) of
                  Inl m \<Rightarrow> Inl (JSONDecodeError m)
                | Inr pl \<Rightarrow>
                    (case (case col_result r of
                             None \<Rightarrow> Inr JNull
                           | Some txt \<Rightarrow> if txt \<noteq> [] then json_loads c txt else Inr JNull) of
                       Inl m \<Rightarrow> Inl (JSONDecodeError m)
                     | Inr res \<Rightarrow>
                         Inr (Some \<lparr>request_id = col_request_id r, model_id = col_model_id r,
                                    operation = col_operation r, payload = pl,
                                    status = col_status r, result = res,
                                    created_at = col_created_at r,
                                    updated_at = col_updated_at r\<rparr>)))))"

text \<open>
  What \<open>update_status\<close> stores in the cached dict for a result that is not \<open>None\<close>:
  \<open>result.model_dump()\<close>, \<open>result.dict()\<close>, or the result itself.
\<close>

fun as_plain :: "pyobj \<Rightarrow> json" where
  "as_plain (PydanticV2 m) = m"
| "as_plain (PydanticV1 m) = m"
| "as_plain (Plain v) = v"

text \<open>
  \<open>update_status\<close>: first the cached dict (loaded from the table when it is not cached),
  then the \<open>UPDATE\<close>; the return value is \<open>cursor.rowcount > 0\<close>.
\<close>

definition update_status ::
  "codec \<Rightarrow> string \<Rightarrow> string \<Rightarrow> string \<Rightarrow> pyobj \<Rightarrow> FuturesStorage \<Rightarrow>
   (error + bool) \<times> FuturesStorage" where
  "update_status c now rid st res s =
     (case (case map_of (memory_store s) rid of
              Some f \<Rightarrow> Inr (Some s)
            | None \<Rightarrow>
                (case load_from_db c rid s of
                   Inl e \<Rightarrow> Inl e
                 | Inr None \<Rightarrow> Inr None
                 | Inr (Some fut) \<Rightarrow>
                     Inr (Some (s\<lparr>memory_store := AList.update rid fut (memory_store s)\<rparr>)))) of
        Inl e \<Rightarrow> (Inl e, s)
      | Inr None \<Rightarrow> (Inr False, s)
      | Inr (Some s1) \<Rightarrow>
          (let s2 = s1\<lparr>memory_store := AList.map_entry rid
                      (\<lambda>f. let f1 = f\<lparr>status := st, updated_at := now\<rparr>
                           in if res \<noteq> Plain JNull then f1\<lparr>result := as_plain res\<rparr> else f1)
                      (memory_store s1)\<rparr>
           in case db_error s2 of
                Some m \<Rightarrow> (Inl (StorageFailure m), s2)
              | None \<Rightarrow>
                  (Inr (0 < length (filter (\<lambda>r. col_request_id r = rid) (futures_table s2))),
                   s2\<lparr>futures_table := map
                        (\<lambda>r. if col_request_id r = rid
                              then r\<lparr>col_status := st, col_result := serialize_result c res,
                                     col_updated_at := now\<rparr>
                              else r) (futures_table s2)\<rparr>)))"

text \<open>
  \<open>get_future\<close> at the level of values: the cached dict, or the decoded row, which is
  then cached. (Which objects the returned dict shares with the cache is the subject of
  the heap model further down.)
\<close>

definition get_future ::
  "codec \<Rightarrow> string \<Rightarrow> FuturesStorage \<Rightarrow> (error + future option) \<times> FuturesStorage" where
  "get_future c rid s =
     (case map_of (memory_store s) rid of
        Some f \<Rightarrow> (Inr (Some f), s)
      | None \<Rightarrow>
          (case load_from_db c rid s of
             Inl e \<Rightarrow> (Inl e, s)
           | Inr None \<Rightarrow> (Inr None, s)
           | Inr (Some fut) \<Rightarrow>
               (Inr (Some fut), s\<lparr>memory_store := AList.update rid fut (memory_store s)\<rparr>)))"

text \<open>
  \<open>cleanup_old_futures\<close>. \<open>cutoff_str\<close> is the ISO-8601 text of
  \<open>datetime.utcnow() - timedelta(hours=max_age_hours)\<close>; both the dict and the table are
  filtered by comparing \<open>created_at\<close> with it as strings.
\<close>

definition cleanup_old_futures ::
  "string \<Rightarrow> FuturesStorage \<Rightarrow> (error + nat) \<times> FuturesStorage" where
  "cleanup_old_futures cutoff_str s =
     (let to_remove = map fst (filter (\<lambda>(rid, f). created_at f < cutoff_str) (memory_store s));
          s1 = s\<lparr>memory_store := fold AList.delete to_remove (memory_store s)\<rparr>;
          memory_removed = length to_remove
      in case db_error s1 of
           Some m \<Rightarrow> (Inl (StorageFailure m), s1)
         | None \<Rightarrow>
             (let db_removed = length (filter (\<lambda>r. col_created_at r < cutoff_str) (futures_table s1));
                  s2 = s1\<lparr>futures_table := filter (\<lambda>r. \<not> col_created_at r < cutoff_str) (futures_table s1)\<rparr>
              in (Inr (memory_removed + db_removed), s2)))"

text \<open>Emptying the cache, as a restart of the process does; the database file stays.\<close>

definition cache_reset :: "FuturesStorage \<Rightarrow> FuturesStorage" where
  "cache_reset s = s\<lparr>memory_store := []\<rparr>"

section \<open>TaskManager (core/task_manager.py)\<close>

text \<open>
  The manager holds the storage and the dict \<open>_active_tasks\<close>, of which only the keys
  matter here. The unit of work \<open>task_func\<close> runs after \<open>create_task\<close> has returned; what
  it does is its outcome: it returns a value, or it raises.
\<close>

record TaskManager =
  futures_storage :: FuturesStorage
  active_tasks :: "string list"

datatype outcome =
    Returns pyobj
  | Raises error

text \<open>
  \<open>create_task\<close> saves the pending future and registers the task. It does not run
  \<open>task_func\<close>: the outcome of the work is no argument of it.
\<close>

definition create_task ::
  "codec \<Rightarrow> string \<Rightarrow> string \<Rightarrow> string \<Rightarrow> string \<Rightarrow> string \<Rightarrow> json \<Rightarrow>
   TaskManager \<Rightarrow> (error + unit) \<times> TaskManager" where
  "create_task c t_created t_updated rid op mid pl tm =
     (case save_future c t_created t_updated rid op pl (Some mid) (futures_storage tm) of
        (Inl e, st) \<Rightarrow> (Inl e, tm\<lparr>futures_storage := st\<rparr>)
      | (Inr u, st) \<Rightarrow>
          (Inr (),
           tm\<lparr>futures_storage := st,
              active_tasks := (if rid \<in> set (active_tasks tm) then active_tasks tm
                               else active_tasks tm @ [rid])\<rparr>))"

text \<open>
  \<open>wrapped_task\<close>, the coroutine the manager schedules, run to its end on a given outcome
  of the work. \<open>t_done\<close> and \<open>t_fail\<close> are the clock readings of the two \<open>update_status\<close>
  calls. The first component is \<open>Inl e\<close> when the exception \<open>e\<close> leaves the coroutine.
\<close>

definition wrapped_task ::
  "codec \<Rightarrow> string \<Rightarrow> string \<Rightarrow> string \<Rightarrow> outcome \<Rightarrow> TaskManager \<Rightarrow>
   (error + unit) \<times> TaskManager" where
  "wrapped_task c t_done t_fail rid work tm =
     (let tried =
            (case work of
               Raises e \<Rightarrow> (Inl e, futures_storage tm)
             | Returns r \<Rightarrow>
                 (case update_status c t_done rid ''completed'' r (futures_storage tm) of
                    (Inl e, st) \<Rightarrow> (Inl e, st)
                  | (Inr b, st) \<Rightarrow> (Inr (), st)));
          handled =
            (case tried of
               (Inl e, st) \<Rightarrow>
                 if is_Exception e
                 then (case update_status c t_fail rid ''failed''
                              (Plain (JDict [(''error'', JStr (str_of_error e))])) st of
                         (Inl e', st') \<Rightarrow> (Inl e', st')
                       | (Inr b, st') \<Rightarrow> (Inr (), st'))
                 else (Inl e, st)
             | (Inr u, st) \<Rightarrow> (Inr (), st))
      in (fst handled,
          tm\<lparr>futures_storage := snd handled,
             active_tasks := removeAll rid (active_tasks tm)\<rparr>))"

section \<open>The retrieval endpoint (routers/futures.py)\<close>

datatype http_result =
    JSONResponse json
  | HTTPException nat json
  | Unhandled error

text \<open>
  \<open>JSONResponse(content=...)\<close> renders its content when it is constructed, with
  \<open>json.dumps(..., allow_nan=False)\<close>: a content that holds \<open>nan\<close> or an infinity anywhere
  makes the constructor raise \<open>ValueError\<close>.
\<close>

fun json_compliant :: "json \<Rightarrow> bool" where
  "json_compliant (JFloat (Finite m e)) = True"
| "json_compliant (JFloat x) = False"
| "json_compliant (JList xs) = list_all json_compliant xs"
| "json_compliant (JDict kvs) = list_all (\<lambda>p. json_compliant (snd p)) kvs"
| "json_compliant v = True"

definition render_json :: "json \<Rightarrow> http_result" where
  "render_json content =
     (if json_compliant content then JSONResponse content
      else Unhandled (ValueError ''Out of range float values are not JSON compliant''))"

record poll_entry =
  start_time :: int
  count :: nat

text \<open>The dict that \<open>get_future\<close> hands to the endpoint.\<close>

definition future_dict :: "future \<Rightarrow> (string \<times> json) list" where
  "future_dict f =
     [(''request_id'', JStr (request_id f)),
      (''model_id'', (case model_id f of None \<Rightarrow> JNull | Some m \<Rightarrow> JStr m)),
      (''operation'', JStr (operation f)),
      (''payload'', payload f),
      (''status'', JStr (status f)),
      (''result'', result f),
      (''created_at'', JStr (created_at f)),
      (''updated_at'', JStr (updated_at f))]"

text \<open>
  \<open>retrieve_future\<close>: the poll counter, the lookup (storage first, then the legacy dict
  \<open>futures_store\<close>), and the response chosen from the status. \<open>now\<close> is \<open>time.time()\<close>.
\<close>

definition retrieve_future ::
  "codec \<Rightarrow> int \<Rightarrow> string \<Rightarrow> FuturesStorage \<Rightarrow> (string \<times> (string \<times> json) list) list \<Rightarrow>
   (string \<times> poll_entry) list \<Rightarrow>
   http_result \<times> FuturesStorage \<times> (string \<times> poll_entry) list" where
  "retrieve_future c now rid fs futures_store poll_tracking =
     (let poll1 = (if map_of poll_tracking rid = None
                   then AList.update rid \<lparr>start_time = now, count = 0\<rparr> poll_tracking
                   else poll_tracking);
          poll2 = AList.map_entry rid (\<lambda>e. e\<lparr>count := count e + 1\<rparr>) poll1
      in case get_future c rid fs of
           (Inl e, fs1) \<Rightarrow> (Unhandled e, fs1, poll2)
         | (Inr found, fs1) \<Rightarrow>
             (case (case found of
                      Some f \<Rightarrow> Some (future_dict f)
                    | None \<Rightarrow> map_of futures_store rid) of
                None \<Rightarrow>
                  (HTTPException 404 (JStr (''Future '' @ rid @ '' not found'')), fs1, poll2)
              | Some fut \<Rightarrow>
                  (case map_of fut ''status'' of
                     None \<Rightarrow> (Unhandled (KeyError ''status''), fs1, poll2)
                   | Some st \<Rightarrow>
                       if st = JStr ''completed''
                       then (render_json (case map_of fut ''result'' of
                                            None \<Rightarrow> JDict []
                                          | Some r \<Rightarrow> r),
                             fs1, AList.delete rid poll2)
                       else if st = JStr ''failed''
                       then (let res = (case map_of fut ''result'' of
                                          None \<Rightarrow> JNull
                                        | Some r \<Rightarrow> r);
                                 err = (case (if truthy res
                                              then (case res of
                                                      JDict kvs \<Rightarrow> map_of kvs ''error''
                                                    | _ \<Rightarrow> None)
                                              else None) of
                                          Some e \<Rightarrow> e
                                        | None \<Rightarrow>
                                            (case map_of fut ''error'' of
                                               Some e \<Rightarrow> e
                                             | None \<Rightarrow> JNull))
                             in (HTTPException 500
                                   (if truthy err then err else JStr ''Operation failed''),
                                 fs1, AList.delete rid poll2))
                       else (HTTPException 408 (JStr ''Operation still in progress''),
                             fs1, poll2))))"

section \<open>get_future on a heap of objects\<close>

text \<open>
  Whether a caller can reach the store's objects through what \<open>get_future\<close> returns
  depends on which objects are shared, so here the dicts are objects at addresses. A
  future's dict holds its \<open>payload\<close> and its \<open>result\<close> by reference; each of these
  nested structures is one object of the heap \<open>h_values\<close>. An address is an index into
  the heap, and allocation appends. \<open>h_database\<close> carries the table and the condition of
  the database file; its own \<open>memory_store\<close> plays no part, the cache being
  \<open>h_memory_store\<close>.
\<close>

record future_obj =
  o_request_id :: string
  o_model_id :: "string option"
  o_operation :: string
  o_payload :: nat
  o_status :: string
  o_result :: nat
  o_created_at :: string
  o_updated_at :: string

record heap_storage =
  h_memory_store :: "(string \<times> nat) list"
  h_dicts :: "future_obj list"
  h_values :: "json list"
  h_database :: FuturesStorage

text \<open>The dict at an address, with the nested objects read out.\<close>

definition deref :: "heap_storage \<Rightarrow> nat \<Rightarrow> future" where
  "deref h a =
     (let d = h_dicts h ! a
      in \<lparr>request_id = o_request_id d, model_id = o_model_id d, operation = o_operation d,
          payload = h_values h ! o_payload d, status = o_status d,
          result = h_values h ! o_result d,
          created_at = o_created_at d, updated_at = o_updated_at d\<rparr>)"

text \<open>The dict literal of \<open>_load_from_db\<close>: fresh nested objects and a fresh dict.\<close>

definition alloc_future :: "future \<Rightarrow> heap_storage \<Rightarrow> nat \<times> heap_storage" where
  "alloc_future f h =
     (let p = length (h_values h);
          r = Suc p;
          d = \<lparr>o_request_id = request_id f, o_model_id = model_id f,
               o_operation = operation f, o_payload = p, o_status = status f,
               o_result = r, o_created_at = created_at f, o_updated_at = updated_at f\<rparr>
      in (length (h_dicts h),
          h\<lparr>h_values := h_values h @ [payload f, result f], h_dicts := h_dicts h @ [d]\<rparr>))"

text \<open>
  \<open>get_future\<close>, returning the address of the dict the caller receives. On a hit this is
  \<open>self._memory_store[request_id].copy()\<close>, a new dict with the same items; on a miss it is
  the dict built by \<open>_load_from_db\<close>, which is also the one put into the cache.
\<close>

definition get_future_h ::
  "codec \<Rightarrow> string \<Rightarrow> heap_storage \<Rightarrow> (error + nat option) \<times> heap_storage" where
  "get_future_h c rid h =
     (case map_of (h_memory_store h) rid of
        Some a \<Rightarrow>
          (Inr (Some (length (h_dicts h))), h\<lparr>h_dicts := h_dicts h @ [h_dicts h ! a]\<rparr>)
      | None \<Rightarrow>
          (case load_from_db c rid (h_database h) of
             Inl e \<Rightarrow> (Inl e, h)
           | Inr None \<Rightarrow> (Inr None, h)
           | Inr (Some fut) \<Rightarrow>
               (case alloc_future fut h of
                  (a, h1) \<Rightarrow>
                    (Inr (Some a),
                     h1\<lparr>h_memory_store := AList.update rid a (h_memory_store h1)\<rparr>))))"

text \<open>What a caller can do with a dict it holds: \<open>d[key] = v\<close> and \<open>d[key][...] = v\<close>.\<close>

definition dict_assign :: "nat \<Rightarrow> (future_obj \<Rightarrow> future_obj) \<Rightarrow> heap_storage \<Rightarrow> heap_storage" where
  "dict_assign a upd h = h\<lparr>h_dicts := (h_dicts h)[a := upd (h_dicts h ! a)]\<rparr>"

definition nested_assign :: "nat \<Rightarrow> json \<Rightarrow> heap_storage \<Rightarrow> heap_storage" where
  "nested_assign a v h = h\<lparr>h_values := (h_values h)[a := v]\<rparr>"

text \<open>
  Every cached address and every reference held by a dict points into the heap, as it
  does in a running program.
\<close>

definition heap_ok :: "heap_storage \<Rightarrow> bool" where
  "heap_ok h =
     (list_all (\<lambda>p. snd p < length (h_dicts h)) (h_memory_store h) \<and>
      list_all (\<lambda>d. o_payload d < length (h_values h) \<and> o_result d < length (h_values h))
        (h_dicts h))"

text \<open>The store as values: what the cache holds, object by object.\<close>

definition abstract :: "heap_storage \<Rightarrow> FuturesStorage" where
  "abstract h =
     (h_database h)\<lparr>memory_store := map (\<lambda>(rid, a). (rid, deref h a)) (h_memory_store h)\<rparr>"

section \<open>Concrete inputs\<close>

text \<open>
  A codec given by a finite table of JSON texts and the values they stand for, and the
  store right after \<open>__init__\<close> on a new database file.
\<close>

definition table_codec :: "(string \<times> json) list \<Rightarrow> codec" where
  "table_codec tbl =
     \<lparr>json_dumps = (\<lambda>v. case find (\<lambda>p. snd p = v) tbl of
                            Some p \<Rightarrow> fst p
                          | None \<Rightarrow> ''null''),
      json_loads = (\<lambda>txt. case map_of tbl txt of
                              Some v \<Rightarrow> Inr v
                            | None \<Rightarrow> Inl ''Expecting value'')\<rparr>"

definition example_codec :: codec where
  \<open>example_codec = table_codec
     [(''{}'', JDict []),
      (''{"x": 1}'', JDict [(''x'', JInt 1)]),
      (''{"error": "boom"}'', JDict [(''error'', JStr ''boom'')]),
      (''{"error": ""}'', JDict [(''error'', JStr [])])]\<close>

definition new_storage :: FuturesStorage where
  "new_storage = \<lparr>memory_store = [], futures_table = [], db_error = None\<rparr>"

definition new_manager :: TaskManager where
  "new_manager = \<lparr>futures_storage = new_storage, active_tasks = []\<rparr>"

text \<open>A store with one completed future in the table and an empty cache, as after a restart.\<close>

definition example_heap :: heap_storage where
  \<open>example_heap =
     \<lparr>h_memory_store = [], h_dicts = [], h_values = [],
      h_database =
        \<lparr>memory_store = [],
         futures_table =
           [\<lparr>col_request_id = ''r1'', col_model_id = None, col_operation = ''save'',
             col_payload = ''{}'', col_status = ''completed'',
             col_result = Some ''{"x": 1}'',
             col_created_at = ''2024-01-01T00:00:00.000100'',
             col_updated_at = ''2024-01-01T00:00:05.000200''\<rparr>],
         db_error = None\<rparr>\<rparr>\<close>

section \<open>Facts about the storage operations\<close>

lemma example_codec_simps:
  \<open>json_dumps example_codec (JDict []) = ''{}''\<close>
  \<open>json_dumps example_codec (JDict [(''x'', JInt 1)]) = ''{"x": 1}''\<close>
  \<open>json_dumps example_codec (JDict [(''error'', JStr ''boom'')]) = ''{"error": "boom"}''\<close>
  \<open>json_dumps example_codec (JDict [(''error'', JStr [])]) = ''{"error": ""}''\<close>
  \<open>json_loads example_codec ''{}'' = Inr (JDict [])\<close>
  \<open>json_loads example_codec ''{"x": 1}'' = Inr (JDict [(''x'', JInt 1)])\<close>
  \<open>json_loads example_codec ''{"error": "boom"}'' = Inr (JDict [(''error'', JStr ''boom'')])\<close>
  \<open>json_loads example_codec ''{"error": ""}'' = Inr (JDict [(''error'', JStr [])])\<close>
  by (simp_all add: example_codec_def table_codec_def)

lemma save_future_ok:
  "db_error s = None \<Longrightarrow>
   save_future c t1 t2 rid op pl mid s =
     (Inr (),
      s\<lparr>memory_store := AList.update rid
           \<lparr>request_id = rid, model_id = mid, operation = op, payload = pl,
            status = ''pending'', result = JNull, created_at = t1, updated_at = t2\<rparr>
           (memory_store s),
        futures_table := insert_or_replace
           \<lparr>col_request_id = rid, col_model_id = mid, col_operation = op,
            col_payload = json_dumps c pl, col_status = ''pending'',
            col_result = None, col_created_at = t1, col_updated_at = t2\<rparr> (futures_table s)\<rparr>)"
  by (simp add: save_future_def Let_def)

lemma find_insert_or_replace:
  "col_request_id r = rid \<Longrightarrow>
   find (\<lambda>x. col_request_id x = rid) (insert_or_replace r rows) = Some r"
  by (induction rows) (simp_all add: insert_or_replace_def)

lemma load_from_db_healthy: "load_from_db c rid s = Inr x \<Longrightarrow> db_error s = None"
  by (simp add: load_from_db_def split: option.splits)

lemma load_from_db_cache_irrelevant [simp]:
  "load_from_db c rid (s\<lparr>memory_store := m\<rparr>) = load_from_db c rid s"
  by (cases "db_error s") (simp_all add: load_from_db_def)

lemma load_from_db_row:
  assumes "db_error s = None"
    and "find (\<lambda>r. col_request_id r = rid) (futures_table s) = Some r"
    and "json_loads c (col_payload r) = Inr p"
    and "col_result r = None"
  shows "load_from_db c rid s =
     Inr (Some \<lparr>request_id = col_request_id r, model_id = col_model_id r,
                operation = col_operation r, payload = p, status = col_status r,
                result = JNull, created_at = col_created_at r,
                updated_at = col_updated_at r\<rparr>)"
  using assms by (simp add: load_from_db_def)

lemma find_map_same_key:
  assumes "\<And>r. col_request_id (g r) = col_request_id r"
  shows "find (\<lambda>r. col_request_id r = rid) (map g rows) =
         map_option g (find (\<lambda>r. col_request_id r = rid) rows)"
  by (induction rows) (simp_all add: assms)

lemma serialize_result_as_plain:
  "serialize_result c res = (if res = Plain JNull then None else Some (json_dumps c (as_plain res)))"
  by (cases "(c, res)" rule: serialize_result.cases) simp_all

lemma update_status_cached:
  "map_of (memory_store s) rid = Some f \<Longrightarrow> db_error s = None \<Longrightarrow>
   update_status c now rid st res s =
     (Inr (0 < length (filter (\<lambda>r. col_request_id r = rid) (futures_table s))),
      s\<lparr>memory_store := AList.map_entry rid
            (\<lambda>f. f\<lparr>status := st, updated_at := now,
                   result := (if res = Plain JNull then result f else as_plain res)\<rparr>)
            (memory_store s),
        futures_table := map
            (\<lambda>r. if col_request_id r = rid
                  then r\<lparr>col_status := st, col_result := serialize_result c res,
                         col_updated_at := now\<rparr>
                  else r) (futures_table s)\<rparr>)"
  by (cases "res = Plain JNull") (simp_all add: update_status_def Let_def)

lemma update_status_loaded:
  "map_of (memory_store s) rid = None \<Longrightarrow> load_from_db c rid s = Inr (Some f) \<Longrightarrow>
   update_status c now rid st res s =
   update_status c now rid st res (s\<lparr>memory_store := AList.update rid f (memory_store s)\<rparr>)"
  by (simp add: update_status_def update_conv')

lemma update_status_memory:
  assumes "map_of (memory_store s) rid = Some f"
  shows "map_of (memory_store (snd (update_status c now rid st res s))) rid =
           Some (f\<lparr>status := st, updated_at := now,
                   result := (if res = Plain JNull then result f else as_plain res)\<rparr>)"
  using assms
  by (cases "db_error s"; cases "res = Plain JNull")
     (simp_all add: update_status_def Let_def map_of_map_entry)

lemma get_future_cached:
  "map_of (memory_store s) rid = Some f \<Longrightarrow> get_future c rid s = (Inr (Some f), s)"
  by (simp add: get_future_def)

lemma get_future_uncached:
  "map_of (memory_store s) rid = None \<Longrightarrow>
   get_future c rid s =
     (case load_from_db c rid s of
        Inl e \<Rightarrow> (Inl e, s)
      | Inr None \<Rightarrow> (Inr None, s)
      | Inr (Some fut) \<Rightarrow>
          (Inr (Some fut), s\<lparr>memory_store := AList.update rid fut (memory_store s)\<rparr>))"
  by (simp add: get_future_def)

lemma get_future_found_cases:
  assumes "fst (get_future c rid s) = Inr (Some f)"
  shows "map_of (memory_store s) rid = Some f \<or>
         (map_of (memory_store s) rid = None \<and> load_from_db c rid s = Inr (Some f))"
  using assms
  by (cases "map_of (memory_store s) rid")
     (auto simp add: get_future_def split: sum.splits option.splits)

lemma get_future_again:
  "fst (get_future c rid (snd (get_future c rid s))) = fst (get_future c rid s)"
  by (cases "map_of (memory_store s) rid")
     (auto simp add: get_future_def update_conv' split: sum.splits option.splits)

lemma get_future_after_update_status:
  assumes "fst (get_future c rid s) = Inr (Some f)"
  shows "fst (get_future c rid (snd (update_status c now rid st res s))) =
           Inr (Some (f\<lparr>status := st, updated_at := now,
                        result := (if res = Plain JNull then result f else as_plain res)\<rparr>))"
proof -
  let ?f' = "f\<lparr>status := st, updated_at := now,
                result := (if res = Plain JNull then result f else as_plain res)\<rparr>"
  have "map_of (memory_store (snd (update_status c now rid st res s))) rid = Some ?f'"
    using get_future_found_cases [OF assms]
  proof
    assume "map_of (memory_store s) rid = Some f"
    then show ?thesis by (rule update_status_memory)
  next
    assume a: "map_of (memory_store s) rid = None \<and> load_from_db c rid s = Inr (Some f)"
    have "map_of (memory_store (s\<lparr>memory_store := AList.update rid f (memory_store s)\<rparr>)) rid = Some f"
      by (simp add: update_conv')
    then show ?thesis
      using a by (simp only: update_status_loaded update_status_memory)
  qed
  then show ?thesis
    by (simp add: get_future_cached)
qed

lemma update_status_found_returns:
  assumes "db_error s = None" and "fst (get_future c rid s) = Inr (Some f)"
  shows "\<exists>b. fst (update_status c now rid st res s) = Inr b"
  using get_future_found_cases [OF assms(2)]
proof
  assume "map_of (memory_store s) rid = Some f"
  then show ?thesis by (simp add: update_status_cached assms(1))
next
  assume a: "map_of (memory_store s) rid = None \<and> load_from_db c rid s = Inr (Some f)"
  have "map_of (memory_store (s\<lparr>memory_store := AList.update rid f (memory_store s)\<rparr>)) rid = Some f"
    by (simp add: update_conv')
  then show ?thesis
    using a assms(1) by (simp add: update_status_loaded update_status_cached)
qed

section \<open>Status updates\<close>

text \<open>
  Claim C1, as the code has it. \<open>update_status\<close> does not look at the status a future
  has: on a future that \<open>get_future\<close> finds, it makes \<open>get_future\<close> show the status it
  was given, with the result replaced when one was given, whatever the status was before.
  \<open>get_future\<close> itself never changes what the next \<open>get_future\<close> returns.
\<close>

theorem update_status_sets_status:
  assumes "fst (get_future c rid s) = Inr (Some f)"
  shows "fst (get_future c rid (snd (update_status c now rid st res s))) =
           Inr (Some (f\<lparr>status := st, updated_at := now,
                        result := (if res = Plain JNull then result f else as_plain res)\<rparr>))
         \<and> fst (get_future c rid (snd (get_future c rid s))) = fst (get_future c rid s)"
  by (simp add: get_future_after_update_status [OF assms] get_future_again)

text \<open>
  A future that lives in the table only, already completed, is set back to pending.
\<close>

theorem update_status_sets_status_witness:
  "(let s = \<lparr>memory_store = [],
             futures_table =
               [\<lparr>col_request_id = ''r1'', col_model_id = None, col_operation = ''save'',
                 col_payload = ''{}'', col_status = ''completed'', col_result = None,
                 col_created_at = ''2024-01-01T00:00:00.000100'',
                 col_updated_at = ''2024-01-01T00:00:05.000200''\<rparr>],
             db_error = None\<rparr>;
        f = \<lparr>request_id = ''r1'', model_id = None, operation = ''save'', payload = JDict [],
             status = ''completed'', result = JNull,
             created_at = ''2024-01-01T00:00:00.000100'',
             updated_at = ''2024-01-01T00:00:05.000200''\<rparr>
    in fst (get_future example_codec ''r1'' s) = Inr (Some f)
     \<and> fst (get_future example_codec ''r1''
            (snd (update_status example_codec ''2024-01-01T00:00:09.000300'' ''r1'' ''pending''
                    (Plain JNull) s))) =
         Inr (Some (f\<lparr>status := ''pending'', updated_at := ''2024-01-01T00:00:09.000300''\<rparr>)))"
proof -
  let ?s = "\<lparr>memory_store = [],
             futures_table =
               [\<lparr>col_request_id = ''r1'', col_model_id = None, col_operation = ''save'',
                 col_payload = ''{}'', col_status = ''completed'', col_result = None,
                 col_created_at = ''2024-01-01T00:00:00.000100'',
                 col_updated_at = ''2024-01-01T00:00:05.000200''\<rparr>],
             db_error = None\<rparr>"
  let ?f = "\<lparr>request_id = ''r1'', model_id = None, operation = ''save'', payload = JDict [],
             status = ''completed'', result = JNull,
             created_at = ''2024-01-01T00:00:00.000100'',
             updated_at = ''2024-01-01T00:00:05.000200''\<rparr>"
  have h: "fst (get_future example_codec ''r1'' ?s) = Inr (Some ?f)"
    by (simp add: get_future_def load_from_db_def example_codec_simps)
  show ?thesis
    using h update_status_sets_status [OF h, where now = "''2024-01-01T00:00:09.000300''"
      and st = "''pending''" and res = "Plain JNull"]
    by (simp add: Let_def)
qed

text \<open>
  Claim C1 as stated fails: a future saved, completed with result \<open>{"x": 1}\<close> and then
  updated with status \<open>pending\<close> is shown as pending again.
\<close>

theorem terminal_status_overwritten:
  "fst (get_future example_codec ''r1''
     (snd (update_status example_codec ''2024-01-01T00:00:09.000300'' ''r1'' ''pending'' (Plain JNull)
       (snd (update_status example_codec ''2024-01-01T00:00:05.000200'' ''r1'' ''completed''
               (Plain (JDict [(''x'', JInt 1)]))
         (snd (save_future example_codec ''2024-01-01T00:00:00.000100'' ''2024-01-01T00:00:00.000101''
                 ''r1'' ''save'' (JDict []) None new_storage)))))))
   = Inr (Some \<lparr>request_id = ''r1'', model_id = None, operation = ''save'', payload = JDict [],
                status = ''pending'', result = JDict [(''x'', JInt 1)],
                created_at = ''2024-01-01T00:00:00.000100'',
                updated_at = ''2024-01-01T00:00:09.000300''\<rparr>)"
  by (simp add: save_future_def update_status_def get_future_def new_storage_def Let_def
      insert_or_replace_def)

text \<open>
  Claim C2. Round trip: on a store whose database works, \<open>save_future\<close>, then
  \<open>update_status\<close> with status \<open>completed\<close> and a plain result \<open>R\<close>, then \<open>get_future\<close>
  returns the future with status \<open>completed\<close> and result \<open>R\<close>; both calls before it
  return normally, the update with \<open>True\<close>.
\<close>

theorem create_update_get_round_trip:
  assumes "db_error s = None"
  shows "case save_future c tc tu rid op pl mid s of (r1, s1) \<Rightarrow>
          (case update_status c now rid ''completed'' (Plain R) s1 of (r2, s2) \<Rightarrow>
            r1 = Inr () \<and> r2 = Inr True \<and>
            fst (get_future c rid s2) =
              Inr (Some \<lparr>request_id = rid, model_id = mid, operation = op, payload = pl,
                         status = ''completed'', result = R, created_at = tc, updated_at = now\<rparr>))"
proof -
  obtain r1 s1 where s1: "save_future c tc tu rid op pl mid s = (r1, s1)"
    by (cases "save_future c tc tu rid op pl mid s")
  obtain r2 s2 where s2: "update_status c now rid ''completed'' (Plain R) s1 = (r2, s2)"
    by (cases "update_status c now rid ''completed'' (Plain R) s1")
  let ?f1 = "\<lparr>request_id = rid, model_id = mid, operation = op, payload = pl,
            status = ''pending'', result = JNull, created_at = tc, updated_at = tu\<rparr>"
  from s1 assms have r1: "r1 = Inr ()" and e1: "db_error s1 = None"
    and m1: "map_of (memory_store s1) rid = Some ?f1"
    and tb: "filter (\<lambda>r. col_request_id r = rid) (futures_table s1) \<noteq> []"
    by (auto simp add: save_future_ok update_conv' insert_or_replace_def)
  from s2 have r2: "r2 = Inr True"
    using tb by (auto simp add: update_status_cached [OF m1 e1])
  have "map_of (memory_store s2) rid =
       Some (?f1\<lparr>status := ''completed'', updated_at := now,
                 result := (if Plain R = Plain JNull then result ?f1 else as_plain (Plain R))\<rparr>)"
    using update_status_memory [OF m1, of c now "''completed''" "Plain R"] by (simp add: s2)
  then have "map_of (memory_store s2) rid =
       Some \<lparr>request_id = rid, model_id = mid, operation = op, payload = pl,
             status = ''completed'', result = R, created_at = tc, updated_at = now\<rparr>"
    by (cases "R = JNull") simp_all
  then show ?thesis
    by (simp add: s1 s2 r1 r2 get_future_cached)
qed

text \<open>
  The round trip on a new store, with result \<open>{"x": 1}\<close>.
\<close>

theorem create_update_get_round_trip_witness:
  "db_error new_storage = None \<and>
   (case save_future example_codec ''2024-01-01T00:00:00.000100'' ''2024-01-01T00:00:00.000101''
           ''r1'' ''save'' (JDict []) None new_storage of (r1, s1) \<Rightarrow>
      (case update_status example_codec ''2024-01-01T00:00:05.000200'' ''r1'' ''completed''
              (Plain (JDict [(''x'', JInt 1)])) s1 of (r2, s2) \<Rightarrow>
         r1 = Inr () \<and> r2 = Inr True \<and>
         fst (get_future example_codec ''r1'' s2) =
           Inr (Some \<lparr>request_id = ''r1'', model_id = None, operation = ''save'',
                      payload = JDict [], status = ''completed'',
                      result = JDict [(''x'', JInt 1)],
                      created_at = ''2024-01-01T00:00:00.000100'',
                      updated_at = ''2024-01-01T00:00:05.000200''\<rparr>)))"
proof -
  have h: "db_error new_storage = None" by (simp add: new_storage_def)
  show ?thesis
    using h create_update_get_round_trip [OF h, where c = example_codec
      and tc = "''2024-01-01T00:00:00.000100''" and tu = "''2024-01-01T00:00:00.000101''"
      and rid = "''r1''" and op = "''save''" and pl = "JDict []" and mid = None
      and now = "''2024-01-01T00:00:05.000200''" and R = "JDict [(''x'', JInt 1)]"]
    by simp
qed

text \<open>
  Claim C9. \<open>update_status\<close> without a result, on a future whose cached result is not
  \<open>None\<close> and whose row exists: the call returns \<open>True\<close>; \<open>get_future\<close> served from the cache
  still returns the old result and leaves the store as it is, so that any number of reads
  keeps the disagreement; the row has \<open>NULL\<close> in its \<open>result\<close> column, and after the cache
  is emptied \<open>get_future\<close> returns result \<open>None\<close>.
\<close>

theorem update_without_result_desynchronises:
  assumes "db_error s = None"
    and "map_of (memory_store s) rid = Some f"
    and "result f \<noteq> JNull"
    and "find (\<lambda>r. col_request_id r = rid) (futures_table s) = Some r"
    and "json_loads c (col_payload r) = Inr p"
  shows "fst (update_status c now rid st (Plain JNull) s) = Inr True
       \<and> get_future c rid (snd (update_status c now rid st (Plain JNull) s)) =
           (Inr (Some (f\<lparr>status := st, updated_at := now\<rparr>)),
            snd (update_status c now rid st (Plain JNull) s))
       \<and> result (f\<lparr>status := st, updated_at := now\<rparr>) \<noteq> JNull
       \<and> find (\<lambda>r. col_request_id r = rid)
             (futures_table (snd (update_status c now rid st (Plain JNull) s))) =
           Some (r\<lparr>col_status := st, col_result := None, col_updated_at := now\<rparr>)
       \<and> fst (get_future c rid (cache_reset (snd (update_status c now rid st (Plain JNull) s)))) =
           Inr (Some \<lparr>request_id = col_request_id r, model_id = col_model_id r,
                      operation = col_operation r, payload = p, status = st,
                      result = JNull, created_at = col_created_at r, updated_at = now\<rparr>)"
proof -
  let ?u = "update_status c now rid st (Plain JNull) s"
  let ?g = "\<lambda>r. if col_request_id r = rid
                then r\<lparr>col_status := st, col_result := serialize_result c (Plain JNull),
                       col_updated_at := now\<rparr>
                else r"
  have u: "?u = (Inr (0 < length (filter (\<lambda>r. col_request_id r = rid) (futures_table s))),
      s\<lparr>memory_store := AList.map_entry rid
            (\<lambda>f. f\<lparr>status := st, updated_at := now,
                   result := (if Plain JNull = Plain JNull then result f else as_plain (Plain JNull))\<rparr>)
            (memory_store s),
        futures_table := map ?g (futures_table s)\<rparr>)"
    by (rule update_status_cached [OF assms(2) assms(1)])
  have "r \<in> set (futures_table s) \<and> col_request_id r = rid"
    using assms(4) by (auto simp add: find_Some_iff)
  then have "filter (\<lambda>r. col_request_id r = rid) (futures_table s) \<noteq> []"
    by (auto simp add: filter_empty_conv)
  then have 1: "fst ?u = Inr True" by (simp add: u)
  have m: "map_of (memory_store (snd ?u)) rid = Some (f\<lparr>status := st, updated_at := now\<rparr>)"
    using update_status_memory [OF assms(2), of c now st "Plain JNull"] by simp
  have 2: "get_future c rid (snd ?u) = (Inr (Some (f\<lparr>status := st, updated_at := now\<rparr>)), snd ?u)"
    by (rule get_future_cached [OF m])
  have key: "col_request_id r = rid"
    using assms(4) by (auto simp add: find_Some_iff)
  have fnd: "find (\<lambda>r. col_request_id r = rid) (futures_table (cache_reset (snd ?u))) = Some (?g r)"
    by (simp add: u cache_reset_def find_map_same_key assms(4))
  have "load_from_db c rid (cache_reset (snd ?u)) =
     Inr (Some \<lparr>request_id = col_request_id (?g r), model_id = col_model_id (?g r),
                operation = col_operation (?g r), payload = p, status = col_status (?g r),
                result = JNull, created_at = col_created_at (?g r),
                updated_at = col_updated_at (?g r)\<rparr>)"
    by (rule load_from_db_row [OF _ fnd]) (simp_all add: u cache_reset_def assms key)
  then have 3: "fst (get_future c rid (cache_reset (snd ?u))) =
           Inr (Some \<lparr>request_id = col_request_id r, model_id = col_model_id r,
                      operation = col_operation r, payload = p, status = st,
                      result = JNull, created_at = col_created_at r, updated_at = now\<rparr>)"
    by (simp add: get_future_def cache_reset_def key)
  have 4: "find (\<lambda>r. col_request_id r = rid) (futures_table (snd ?u)) =
      Some (r\<lparr>col_status := st, col_result := None, col_updated_at := now\<rparr>)"
    by (simp add: u find_map_same_key assms(4) key)
  show ?thesis using 1 2 3 4 assms(3) by simp
qed

text \<open>
  A future completed with \<open>{"x": 1}\<close>, then updated to \<open>failed\<close> without a result.
\<close>

theorem update_without_result_desynchronises_witness:
  "(let s = snd (update_status example_codec ''2024-01-01T00:00:05.000200'' ''r1'' ''completed''
                   (Plain (JDict [(''x'', JInt 1)]))
              (snd (save_future example_codec ''2024-01-01T00:00:00.000100''
                      ''2024-01-01T00:00:00.000101'' ''r1'' ''save'' (JDict []) None
                      new_storage)));
        f = \<lparr>request_id = ''r1'', model_id = None, operation = ''save'', payload = JDict [],
             status = ''completed'', result = JDict [(''x'', JInt 1)],
             created_at = ''2024-01-01T00:00:00.000100'',
             updated_at = ''2024-01-01T00:00:05.000200''\<rparr>;
        u = update_status example_codec ''2024-01-01T00:00:09.000300'' ''r1'' ''failed''
              (Plain JNull) s
    in db_error s = None
     \<and> map_of (memory_store s) ''r1'' = Some f
     \<and> result f \<noteq> JNull
     \<and> fst u = Inr True
     \<and> get_future example_codec ''r1'' (snd u) =
         (Inr (Some (f\<lparr>status := ''failed'', updated_at := ''2024-01-01T00:00:09.000300''\<rparr>)),
          snd u)
     \<and> map col_result (futures_table (snd u)) = [None]
     \<and> fst (get_future example_codec ''r1'' (cache_reset (snd u))) =
         Inr (Some \<lparr>request_id = ''r1'', model_id = None, operation = ''save'',
                    payload = JDict [], status = ''failed'', result = JNull,
                    created_at = ''2024-01-01T00:00:00.000100'',
                    updated_at = ''2024-01-01T00:00:09.000300''\<rparr>))"
proof -
  let ?s = "snd (update_status example_codec ''2024-01-01T00:00:05.000200'' ''r1'' ''completed''
                   (Plain (JDict [(''x'', JInt 1)]))
              (snd (save_future example_codec ''2024-01-01T00:00:00.000100''
                      ''2024-01-01T00:00:00.000101'' ''r1'' ''save'' (JDict []) None
                      new_storage)))"
  let ?f = "\<lparr>request_id = ''r1'', model_id = None, operation = ''save'', payload = JDict [],
             status = ''completed'', result = JDict [(''x'', JInt 1)],
             created_at = ''2024-01-01T00:00:00.000100'',
             updated_at = ''2024-01-01T00:00:05.000200''\<rparr>"
  let ?r = "\<lparr>col_request_id = ''r1'', col_model_id = None, col_operation = ''save'',
             col_payload = json_dumps example_codec (JDict []), col_status = ''completed'',
             col_result = Some (json_dumps example_codec (JDict [(''x'', JInt 1)])),
             col_created_at = ''2024-01-01T00:00:00.000100'',
             col_updated_at = ''2024-01-01T00:00:05.000200''\<rparr>"
  have h1: "db_error ?s = None"
    and h2: "map_of (memory_store ?s) ''r1'' = Some ?f"
    and h4: "find (\<lambda>r. col_request_id r = ''r1'') (futures_table ?s) = Some ?r"
    by (simp_all add: save_future_def update_status_def new_storage_def Let_def
        insert_or_replace_def)
  have h3: "result ?f \<noteq> JNull" by simp
  have h5: "json_loads example_codec (col_payload ?r) = Inr (JDict [])"
    by (simp add: example_codec_simps)
  have "map col_result (futures_table (snd (update_status example_codec
          ''2024-01-01T00:00:09.000300'' ''r1'' ''failed'' (Plain JNull) ?s))) = [None]"
    by (simp add: save_future_def update_status_def new_storage_def Let_def
        insert_or_replace_def)
  then show ?thesis
    using h1 h2 h3 update_without_result_desynchronises [OF h1 h2 h3 h4 h5,
      where now = "''2024-01-01T00:00:09.000300''" and st = "''failed''"]
    by (simp add: Let_def)
qed

text \<open>
  Claim C10. When the request id is cached but has no row in the table (and the database
  works), \<open>update_status\<close> returns \<open>False\<close>, yet the cached dict has the new status and
  \<open>updated_at\<close>, and the new result when one was given; the table is as before.
\<close>

theorem update_status_reports_not_found_after_mutation:
  assumes "map_of (memory_store s) rid = Some f"
    and "filter (\<lambda>r. col_request_id r = rid) (futures_table s) = []"
    and "db_error s = None"
  shows "fst (update_status c now rid st res s) = Inr False
       \<and> map_of (memory_store (snd (update_status c now rid st res s))) rid =
           Some (f\<lparr>status := st, updated_at := now,
                   result := (if res = Plain JNull then result f else as_plain res)\<rparr>)
       \<and> futures_table (snd (update_status c now rid st res s)) = futures_table s"
proof -
  have "\<forall>r \<in> set (futures_table s). col_request_id r \<noteq> rid"
    using assms(2) by (simp add: filter_empty_conv)
  then have "map (\<lambda>r. if col_request_id r = rid
                  then r\<lparr>col_status := st, col_result := serialize_result c res,
                         col_updated_at := now\<rparr>
                  else r) (futures_table s) = futures_table s"
    by (simp add: map_idI)
  then show ?thesis
    using assms(2) update_status_memory [OF assms(1), of c now st res]
    by (simp add: update_status_cached [OF assms(1) assms(3)])
qed

text \<open>
  A cached future that has no row in the table.
\<close>

theorem update_status_reports_not_found_after_mutation_witness:
  "(let f = \<lparr>request_id = ''r1'', model_id = None, operation = ''save'', payload = JDict [],
            status = ''pending'', result = JNull,
            created_at = ''2024-01-01T00:00:00.000100'',
            updated_at = ''2024-01-01T00:00:00.000101''\<rparr>;
        s = \<lparr>memory_store = [(''r1'', f)], futures_table = [], db_error = None\<rparr>;
        u = update_status example_codec ''2024-01-01T00:00:05.000200'' ''r1'' ''completed''
              (Plain (JDict [(''x'', JInt 1)])) s
    in map_of (memory_store s) ''r1'' = Some f
     \<and> filter (\<lambda>r. col_request_id r = ''r1'') (futures_table s) = []
     \<and> db_error s = None
     \<and> fst u = Inr False
     \<and> map_of (memory_store (snd u)) ''r1'' =
         Some (f\<lparr>status := ''completed'', updated_at := ''2024-01-01T00:00:05.000200'',
                 result := JDict [(''x'', JInt 1)]\<rparr>)
     \<and> futures_table (snd u) = [])"
proof -
  let ?f = "\<lparr>request_id = ''r1'', model_id = None, operation = ''save'', payload = JDict [],
            status = ''pending'', result = JNull,
            created_at = ''2024-01-01T00:00:00.000100'',
            updated_at = ''2024-01-01T00:00:00.000101''\<rparr>"
  let ?s = "\<lparr>memory_store = [(''r1'', ?f)], futures_table = [], db_error = None\<rparr>"
  have h1: "map_of (memory_store ?s) ''r1'' = Some ?f" by simp
  have h2: "filter (\<lambda>r. col_request_id r = ''r1'') (futures_table ?s) = []" by simp
  have h3: "db_error ?s = None" by simp
  show ?thesis
    using update_status_reports_not_found_after_mutation [OF h1 h2 h3, where c = example_codec
      and now = "''2024-01-01T00:00:05.000200''" and st = "''completed''"
      and res = "Plain (JDict [(''x'', JInt 1)])"]
    by (simp add: Let_def)
qed

section \<open>Recovery after a cache reset\<close>

text \<open>
  After \<open>save_future\<close> and one \<open>update_status\<close>, the cache and the table agree: emptying
  the cache does not change what \<open>get_future\<close> returns, provided the payload and the result
  survive \<open>json.dumps\<close> followed by \<open>json.loads\<close>.
\<close>

lemma recovery_after_single_update:
  assumes "db_error s = None"
    and "json_loads c (json_dumps c pl) = Inr pl"
    and "res \<noteq> Plain JNull \<Longrightarrow>
           json_dumps c (as_plain res) \<noteq> [] \<and>
           json_loads c (json_dumps c (as_plain res)) = Inr (as_plain res)"
  shows "fst (get_future c rid (cache_reset
            (snd (update_status c now rid st res (snd (save_future c tc tu rid op pl mid s)))))) =
         fst (get_future c rid
            (snd (update_status c now rid st res (snd (save_future c tc tu rid op pl mid s)))))"
proof -
  let ?s1 = "snd (save_future c tc tu rid op pl mid s)"
  let ?s2 = "snd (update_status c now rid st res ?s1)"
  let ?f1 = "\<lparr>request_id = rid, model_id = mid, operation = op, payload = pl,
            status = ''pending'', result = JNull, created_at = tc, updated_at = tu\<rparr>"
  let ?r1 = "\<lparr>col_request_id = rid, col_model_id = mid, col_operation = op,
            col_payload = json_dumps c pl, col_status = ''pending'',
            col_result = None, col_created_at = tc, col_updated_at = tu\<rparr>"
  let ?g = "\<lambda>r. if col_request_id r = rid
                then r\<lparr>col_status := st, col_result := serialize_result c res,
                       col_updated_at := now\<rparr>
                else r"
  have e1: "db_error ?s1 = None"
    and m1: "map_of (memory_store ?s1) rid = Some ?f1"
    and f1: "find (\<lambda>r. col_request_id r = rid) (futures_table ?s1) = Some ?r1"
    using assms(1)
    by (simp_all add: save_future_ok update_conv' find_insert_or_replace)
  have m2: "map_of (memory_store ?s2) rid =
      Some (?f1\<lparr>status := st, updated_at := now,
                result := (if res = Plain JNull then result ?f1 else as_plain res)\<rparr>)"
    by (rule update_status_memory [OF m1])
  have e2: "db_error ?s2 = None"
    and f2: "find (\<lambda>r. col_request_id r = rid) (futures_table ?s2) = Some (?g ?r1)"
    by (simp_all add: update_status_cached [OF m1 e1] find_map_same_key f1 e1)
  have l: "load_from_db c rid (cache_reset ?s2) =
     Inr (Some (?f1\<lparr>status := st, updated_at := now,
                result := (if res = Plain JNull then result ?f1 else as_plain res)\<rparr>))"
    using assms(2,3) e2 f2
    by (simp add: load_from_db_def cache_reset_def serialize_result_as_plain)
  have n: "map_of (memory_store (cache_reset ?s2)) rid = None"
    by (simp add: cache_reset_def)
  have "fst (get_future c rid (cache_reset ?s2)) =
     Inr (Some (?f1\<lparr>status := st, updated_at := now,
                result := (if res = Plain JNull then result ?f1 else as_plain res)\<rparr>))"
    by (simp only: get_future_uncached [OF n] l) simp
  then show ?thesis
    by (simp only: get_future_cached [OF m2] fst_conv)
qed

text \<open>
  Claim C8 fails at the following input. A future is completed with result \<open>{"x": 1}\<close> and
  then updated once more without a result (the default of the parameter). The cache keeps
  \<open>{"x": 1}\<close>, the \<open>UPDATE\<close> writes \<open>NULL\<close>: before the cache reset \<open>get_future\<close> returns
  result \<open>{"x": 1}\<close>, after it \<open>None\<close>.
\<close>

theorem recovery_loses_result_after_update_without_result:
  "(let s = snd (update_status example_codec ''2024-01-01T00:00:09.000300'' ''r1'' ''completed''
                  (Plain JNull)
             (snd (update_status example_codec ''2024-01-01T00:00:05.000200'' ''r1'' ''completed''
                     (Plain (JDict [(''x'', JInt 1)]))
               (snd (save_future example_codec ''2024-01-01T00:00:00.000100''
                       ''2024-01-01T00:00:00.000101'' ''r1'' ''save'' (JDict []) None
                       new_storage)))))
    in fst (get_future example_codec ''r1'' s) =
         Inr (Some \<lparr>request_id = ''r1'', model_id = None, operation = ''save'',
                    payload = JDict [], status = ''completed'',
                    result = JDict [(''x'', JInt 1)],
                    created_at = ''2024-01-01T00:00:00.000100'',
                    updated_at = ''2024-01-01T00:00:09.000300''\<rparr>)
     \<and> fst (get_future example_codec ''r1'' (cache_reset s)) =
         Inr (Some \<lparr>request_id = ''r1'', model_id = None, operation = ''save'',
                    payload = JDict [], status = ''completed'',
                    result = JNull,
                    created_at = ''2024-01-01T00:00:00.000100'',
                    updated_at = ''2024-01-01T00:00:09.000300''\<rparr>))"
  by (simp add: save_future_def update_status_def get_future_def load_from_db_def
      cache_reset_def new_storage_def Let_def insert_or_replace_def example_codec_simps)

section \<open>Cleanup\<close>

lemma fold_delete_filter:
  "fold AList.delete ks al = filter (\<lambda>p. fst p \<notin> set ks) al"
proof (induction ks arbitrary: al)
  case Nil
  show ?case by simp
next
  case (Cons k ks)
  have "AList.delete k al = filter (\<lambda>p. fst p \<noteq> k) al"
    by (simp add: AList.delete_eq case_prod_beta' eq_commute)
  then show ?case
    by (simp add: Cons.IH)
qed

lemma cleanup_old_futures_memory:
  "memory_store (snd (cleanup_old_futures cutoff s)) =
     filter (\<lambda>p. fst p \<notin> fst ` {q \<in> set (memory_store s). created_at (snd q) < cutoff})
       (memory_store s)"
  by (cases "db_error s")
     (simp_all add: cleanup_old_futures_def Let_def fold_delete_filter case_prod_beta')

lemma cleanup_old_futures_no_old_left:
  assumes "p \<in> set (memory_store (snd (cleanup_old_futures cutoff s)))"
  shows "\<not> created_at (snd p) < cutoff"
proof
  assume "created_at (snd p) < cutoff"
  moreover have "p \<in> set (memory_store s)"
    using assms by (simp add: cleanup_old_futures_memory)
  ultimately have "fst p \<in> fst ` {q \<in> set (memory_store s). created_at (snd q) < cutoff}"
    by blast
  then show False
    using assms by (simp add: cleanup_old_futures_memory)
qed

lemma cleanup_old_futures_ok:
  assumes "db_error s = None"
  shows "cleanup_old_futures cutoff s =
     (Inr (length (filter (\<lambda>p. created_at (snd p) < cutoff) (memory_store s)) +
           length (filter (\<lambda>r. col_created_at r < cutoff) (futures_table s))),
      s\<lparr>memory_store :=
          filter (\<lambda>p. fst p \<notin> fst ` {q \<in> set (memory_store s). created_at (snd q) < cutoff})
            (memory_store s),
        futures_table := filter (\<lambda>r. \<not> col_created_at r < cutoff) (futures_table s)\<rparr>)"
  using assms
  by (simp add: cleanup_old_futures_def Let_def fold_delete_filter case_prod_beta')

lemma cleanup_old_futures_db_error [simp]:
  "db_error (snd (cleanup_old_futures cutoff s)) = db_error s"
  by (cases "db_error s") (simp_all add: cleanup_old_futures_def Let_def)

lemma cleanup_old_futures_table:
  "r \<in> set (futures_table (snd (cleanup_old_futures cutoff s))) \<Longrightarrow> db_error s = None \<Longrightarrow>
   \<not> col_created_at r < cutoff"
  by (simp add: cleanup_old_futures_def Let_def)

text \<open>
  What is removed: with the keys of the cache distinct, as in a dict, exactly the entries
  and the rows whose \<open>created_at\<close> is below the cutoff.
\<close>

lemma cleanup_old_futures_removes_exactly:
  assumes "distinct (map fst (memory_store s))" and "db_error s = None"
  shows "snd (cleanup_old_futures cutoff s) =
     s\<lparr>memory_store := filter (\<lambda>p. \<not> created_at (snd p) < cutoff) (memory_store s),
       futures_table := filter (\<lambda>r. \<not> col_created_at r < cutoff) (futures_table s)\<rparr>"
proof -
  have "filter (\<lambda>p. fst p \<notin> fst ` {q \<in> set (memory_store s). created_at (snd q) < cutoff})
            (memory_store s) =
        filter (\<lambda>p. \<not> created_at (snd p) < cutoff) (memory_store s)"
  proof (rule filter_cong [OF refl])
    fix p assume p: "p \<in> set (memory_store s)"
    have same: "q = p" if "q \<in> set (memory_store s)" and "fst q = fst p" for q
      using that p assms(1) by (metis eq_key_imp_eq_value prod.collapse)
    show "(fst p \<notin> fst ` {q \<in> set (memory_store s). created_at (snd q) < cutoff}) =
          (\<not> created_at (snd p) < cutoff)"
    proof
      assume "fst p \<notin> fst ` {q \<in> set (memory_store s). created_at (snd q) < cutoff}"
      then show "\<not> created_at (snd p) < cutoff" using p by blast
    next
      assume old: "\<not> created_at (snd p) < cutoff"
      show "fst p \<notin> fst ` {q \<in> set (memory_store s). created_at (snd q) < cutoff}"
      proof
        assume "fst p \<in> fst ` {q \<in> set (memory_store s). created_at (snd q) < cutoff}"
        then obtain q where "q \<in> set (memory_store s)" and "created_at (snd q) < cutoff"
          and "fst q = fst p" by auto
        then show False using same old by blast
      qed
    qed
  qed
  then show ?thesis
    by (simp add: cleanup_old_futures_ok [OF assms(2)])
qed

text \<open>
  Claim C6 fails at the following input: the returned number is not the number of futures
  removed. One future, saved the day before the cutoff, is in the cache and in the table;
  \<open>cleanup_old_futures\<close> removes it from both and returns 2, the sum of the two counts.
\<close>

theorem cleanup_counts_a_cached_future_twice:
  "cleanup_old_futures ''2024-01-02T00:00:00.000500''
     (snd (save_future example_codec ''2024-01-01T00:00:00.000100'' ''2024-01-01T00:00:00.000101''
             ''r1'' ''save'' (JDict []) None new_storage))
   = (Inr 2, new_storage)"
  by (simp add: save_future_def cleanup_old_futures_def new_storage_def Let_def
      insert_or_replace_def)

lemma cleanup_old_futures_memory_subset:
  "p \<in> set (memory_store (snd (cleanup_old_futures cutoff s))) \<Longrightarrow> p \<in> set (memory_store s)"
  by (simp add: cleanup_old_futures_memory)

lemma cleanup_old_futures_table_subset:
  "r \<in> set (futures_table (snd (cleanup_old_futures cutoff s))) \<Longrightarrow> r \<in> set (futures_table s)"
  by (cases "db_error s") (simp_all add: cleanup_old_futures_def Let_def)

text \<open>
  Two calls in a row, with the keys of the cache distinct: the second one returns the
  number of cache entries plus the number of rows whose \<open>created_at\<close> lies between the
  two cutoffs.
\<close>

lemma cleanup_again_count:
  assumes "db_error s = None" and "distinct (map fst (memory_store s))"
  shows "fst (cleanup_old_futures cutoff2 (snd (cleanup_old_futures cutoff1 s))) =
     Inr (length (filter (\<lambda>p. cutoff1 \<le> created_at (snd p) \<and> created_at (snd p) < cutoff2)
                    (memory_store s)) +
          length (filter (\<lambda>r. cutoff1 \<le> col_created_at r \<and> col_created_at r < cutoff2)
                    (futures_table s)))"
proof -
  let ?s1 = "s\<lparr>memory_store := filter (\<lambda>p. \<not> created_at (snd p) < cutoff1) (memory_store s),
       futures_table := filter (\<lambda>r. \<not> col_created_at r < cutoff1) (futures_table s)\<rparr>"
  have s1: "snd (cleanup_old_futures cutoff1 s) = ?s1"
    by (rule cleanup_old_futures_removes_exactly [OF assms(2,1)])
  have e: "db_error ?s1 = None" using assms(1) by simp
  show ?thesis
    by (simp only: s1 cleanup_old_futures_ok [OF e, of cutoff2]) (simp add: not_less)
qed

text \<open>
  Claim C7, as the code has it. The cutoff is read from the clock at each call, so the
  second call has a cutoff \<open>cutoff2\<close> of its own. On a store whose database works, the
  second call removes nothing and returns 0 whenever no future of the store, cached or
  persisted, has its \<open>created_at\<close> at or after the first cutoff and before the second.
  This covers a second call at a later clock reading, and every second call whose cutoff
  is not later than the first one's.
\<close>

theorem cleanup_again_removes_nothing_outside_window:
  assumes "db_error s = None"
    and "filter (\<lambda>p. cutoff1 \<le> created_at (snd p) \<and> created_at (snd p) < cutoff2)
           (memory_store s) = []"
    and "filter (\<lambda>r. cutoff1 \<le> col_created_at r \<and> col_created_at r < cutoff2)
           (futures_table s) = []"
  shows "cleanup_old_futures cutoff2 (snd (cleanup_old_futures cutoff1 s)) =
           (Inr 0, snd (cleanup_old_futures cutoff1 s))"
proof -
  let ?s1 = "snd (cleanup_old_futures cutoff1 s)"
  have e: "db_error ?s1 = None" using assms(1) by simp
  have nm: "\<not> created_at (snd p) < cutoff2" if "p \<in> set (memory_store ?s1)" for p
  proof -
    have "cutoff1 \<le> created_at (snd p)"
      using cleanup_old_futures_no_old_left [OF that] by simp
    moreover have "p \<in> set (memory_store s)"
      using that by (rule cleanup_old_futures_memory_subset)
    ultimately show ?thesis
      using assms(2) by (auto simp add: filter_empty_conv)
  qed
  have nt: "\<not> col_created_at r < cutoff2" if "r \<in> set (futures_table ?s1)" for r
  proof -
    have "cutoff1 \<le> col_created_at r"
      using cleanup_old_futures_table [OF that assms(1)] by simp
    moreover have "r \<in> set (futures_table s)"
      using that by (rule cleanup_old_futures_table_subset)
    ultimately show ?thesis
      using assms(3) by (auto simp add: filter_empty_conv)
  qed
  have m: "filter (\<lambda>p. created_at (snd p) < cutoff2) (memory_store ?s1) = []"
    using nm by (simp add: filter_empty_conv)
  have t: "filter (\<lambda>r. col_created_at r < cutoff2) (futures_table ?s1) = []"
    using nt by (simp add: filter_empty_conv)
  have t': "filter (\<lambda>r. \<not> col_created_at r < cutoff2) (futures_table ?s1) = futures_table ?s1"
    using nt by (simp add: filter_id_conv)
  have em: "{q \<in> set (memory_store ?s1). created_at (snd q) < cutoff2} = {}"
    using nm by blast
  have m': "filter (\<lambda>p. fst p \<notin> fst ` {q \<in> set (memory_store ?s1). created_at (snd q) < cutoff2})
            (memory_store ?s1) = memory_store ?s1"
    by (simp only: em) simp
  show ?thesis
    by (simp only: cleanup_old_futures_ok [OF e, of cutoff2] m m' t t') simp
qed

text \<open>
  With \<open>max_age_hours = 1\<close> and calls at 12:00:00.25 and 12:00:01.25: the first removes the
  future created at 10:00:00.5 and keeps the one created at 11:30, the second removes
  nothing.
\<close>

theorem cleanup_again_removes_nothing_outside_window_witness:
  "(let s = snd (save_future example_codec ''2024-01-01T11:30:00.000200''
                   ''2024-01-01T11:30:00.000201'' ''r2'' ''save'' (JDict []) None
              (snd (save_future example_codec ''2024-01-01T10:00:00.500000''
                      ''2024-01-01T10:00:00.500001'' ''r1'' ''save'' (JDict []) None
                      new_storage)));
        cutoff1 = ''2024-01-01T11:00:00.250000'';
        cutoff2 = ''2024-01-01T11:00:01.250000''
    in db_error s = None
     \<and> filter (\<lambda>p. cutoff1 \<le> created_at (snd p) \<and> created_at (snd p) < cutoff2)
           (memory_store s) = []
     \<and> filter (\<lambda>r. cutoff1 \<le> col_created_at r \<and> col_created_at r < cutoff2)
           (futures_table s) = []
     \<and> fst (cleanup_old_futures cutoff1 s) = Inr 2
     \<and> map fst (memory_store (snd (cleanup_old_futures cutoff1 s))) = [''r2'']
     \<and> cleanup_old_futures cutoff2 (snd (cleanup_old_futures cutoff1 s)) =
         (Inr 0, snd (cleanup_old_futures cutoff1 s)))"
proof -
  let ?s = "snd (save_future example_codec ''2024-01-01T11:30:00.000200''
                   ''2024-01-01T11:30:00.000201'' ''r2'' ''save'' (JDict []) None
              (snd (save_future example_codec ''2024-01-01T10:00:00.500000''
                      ''2024-01-01T10:00:00.500001'' ''r1'' ''save'' (JDict []) None
                      new_storage)))"
  let ?c1 = "''2024-01-01T11:00:00.250000''"
  let ?c2 = "''2024-01-01T11:00:01.250000''"
  have h1: "db_error ?s = None"
    by (simp add: save_future_def new_storage_def Let_def)
  have h2: "filter (\<lambda>p. ?c1 \<le> created_at (snd p) \<and> created_at (snd p) < ?c2)
           (memory_store ?s) = []"
    by (simp add: save_future_def new_storage_def Let_def)
  have h3: "filter (\<lambda>r. ?c1 \<le> col_created_at r \<and> col_created_at r < ?c2)
           (futures_table ?s) = []"
    by (simp add: save_future_def new_storage_def Let_def insert_or_replace_def)
  have f: "fst (cleanup_old_futures ?c1 ?s) = Inr 2"
    and k: "map fst (memory_store (snd (cleanup_old_futures ?c1 ?s))) = [''r2'']"
    by (simp_all add: save_future_def cleanup_old_futures_def new_storage_def Let_def
        insert_or_replace_def)
  show ?thesis
    using h1 h2 h3 f k cleanup_again_removes_nothing_outside_window [OF h1 h2 h3]
    by (simp add: Let_def)
qed

text \<open>
  Claim C7 as stated fails: with \<open>max_age_hours = 1\<close>, a future created at 10:00:00.5 is
  kept by a call at 11:00:00.25 (cutoff 10:00:00.25), which returns 0, and removed by a
  second call one second later (cutoff 10:00:01.25), which returns 2.
\<close>

theorem cleanup_later_call_removes_more:
  "(let s = snd (save_future example_codec ''2024-01-01T10:00:00.500000''
                  ''2024-01-01T10:00:00.500001'' ''r1'' ''save'' (JDict []) None new_storage)
    in cleanup_old_futures ''2024-01-01T10:00:00.250000'' s = (Inr 0, s)
     \<and> cleanup_old_futures ''2024-01-01T10:00:01.250000''
         (snd (cleanup_old_futures ''2024-01-01T10:00:00.250000'' s)) = (Inr 2, new_storage))"
  by (simp add: save_future_def cleanup_old_futures_def new_storage_def Let_def
      insert_or_replace_def)

section \<open>TaskManager\<close>


lemma wrapped_task_raises:
  assumes "is_Exception e"
    and "update_status c t_fail rid ''failed''
           (Plain (JDict [(''error'', JStr (str_of_error e))])) (futures_storage tm) = (Inr b, st)"
  shows "wrapped_task c t_done t_fail rid (Raises e) tm =
     (Inr (), tm\<lparr>futures_storage := st, active_tasks := removeAll rid (active_tasks tm)\<rparr>)"
  using assms by (simp add: wrapped_task_def)


text \<open>
  Whenever the future is found and the database works, work that raises an \<open>Exception\<close>
  ends with the future failed, whatever happened since \<open>create_task\<close>.
\<close>

lemma wrapped_task_records_failure:
  assumes "db_error (futures_storage tm) = None"
    and "fst (get_future c rid (futures_storage tm)) = Inr (Some f)"
    and "is_Exception e"
  shows "fst (wrapped_task c t_done t_fail rid (Raises e) tm) = Inr ()
       \<and> fst (get_future c rid (futures_storage (snd (wrapped_task c t_done t_fail rid (Raises e) tm)))) =
           Inr (Some (f\<lparr>status := ''failed'', updated_at := t_fail,
                        result := JDict [(''error'', JStr (str_of_error e))]\<rparr>))
       \<and> rid \<notin> set (active_tasks (snd (wrapped_task c t_done t_fail rid (Raises e) tm)))"
proof -
  let ?res = "Plain (JDict [(''error'', JStr (str_of_error e))])"
  let ?u = "update_status c t_fail rid ''failed'' ?res (futures_storage tm)"
  obtain b where b: "fst ?u = Inr b"
    using update_status_found_returns [OF assms(1,2)] by blast
  then have u: "?u = (Inr b, snd ?u)"
    by (metis prod.collapse)
  have w: "wrapped_task c t_done t_fail rid (Raises e) tm =
     (Inr (), tm\<lparr>futures_storage := snd ?u, active_tasks := removeAll rid (active_tasks tm)\<rparr>)"
    by (rule wrapped_task_raises [OF assms(3) u])
  have "fst (get_future c rid (snd ?u)) =
           Inr (Some (f\<lparr>status := ''failed'', updated_at := t_fail,
                        result := (if ?res = Plain JNull then result f else as_plain ?res)\<rparr>))"
    by (rule get_future_after_update_status [OF assms(2)])
  then show ?thesis
    by (simp add: w)
qed






section \<open>The retrieval endpoint\<close>

lemma map_of_future_dict:
  "map_of (future_dict f) ''status'' = Some (JStr (status f))"
  "map_of (future_dict f) ''result'' = Some (result f)"
  "map_of (future_dict f) ''error'' = None"
  by (simp_all add: future_dict_def)

lemma retrieve_future_found:
  assumes "fst (get_future c rid fs) = Inr (Some f)"
  shows "fst (retrieve_future c now rid fs futures_store poll) =
     (if status f = ''completed''
      then (if json_compliant (result f) then JSONResponse (result f)
            else Unhandled (ValueError ''Out of range float values are not JSON compliant''))
      else if status f = ''failed''
      then HTTPException 500
             (case result f of
                JDict kvs \<Rightarrow>
                  (case map_of kvs ''error'' of
                     Some e \<Rightarrow> if truthy e then e else JStr ''Operation failed''
                   | None \<Rightarrow> JStr ''Operation failed'')
              | _ \<Rightarrow> JStr ''Operation failed'')
      else HTTPException 408 (JStr ''Operation still in progress''))"
proof -
  obtain fs1 where g: "get_future c rid fs = (Inr (Some f), fs1)"
    using assms by (cases "get_future c rid fs") simp
  show ?thesis
  proof (cases "result f")
    case (JDict kvs)
    then show ?thesis
      by (cases "map_of kvs ''error''"; cases kvs)
         (simp_all add: retrieve_future_def g map_of_future_dict Let_def render_json_def)
  next
    case (JFloat x)
    then show ?thesis
      by (cases x) (simp_all add: retrieve_future_def g map_of_future_dict Let_def render_json_def)
  qed (simp_all add: retrieve_future_def g map_of_future_dict Let_def render_json_def)
qed

lemma retrieve_future_legacy:
  assumes "fst (get_future c rid fs) = Inr None"
  shows "fst (retrieve_future c now rid fs futures_store poll) =
     (case map_of futures_store rid of
        None \<Rightarrow> HTTPException 404 (JStr (''Future '' @ rid @ '' not found''))
      | Some fut \<Rightarrow>
          (case map_of fut ''status'' of
             None \<Rightarrow> Unhandled (KeyError ''status'')
           | Some st \<Rightarrow>
               if st = JStr ''completed''
               then (case map_of fut ''result'' of
                       None \<Rightarrow> JSONResponse (JDict [])
                     | Some r \<Rightarrow>
                         if json_compliant r then JSONResponse r
                         else Unhandled
                                (ValueError ''Out of range float values are not JSON compliant''))
               else if st = JStr ''failed''
               then HTTPException 500
                      (case (case map_of fut ''result'' of
                               Some (JDict kvs) \<Rightarrow> map_of kvs ''error''
                             | _ \<Rightarrow> None) of
                         Some e \<Rightarrow> if truthy e then e else JStr ''Operation failed''
                       | None \<Rightarrow>
                           (case map_of fut ''error'' of
                              Some e \<Rightarrow> if truthy e then e else JStr ''Operation failed''
                            | None \<Rightarrow> JStr ''Operation failed''))
               else HTTPException 408 (JStr ''Operation still in progress'')))"
proof -
  obtain fs1 where g: "get_future c rid fs = (Inr None, fs1)"
    using assms by (cases "get_future c rid fs") simp
  show ?thesis
  proof (cases "map_of futures_store rid")
    case None
    then show ?thesis by (simp add: retrieve_future_def g Let_def)
  next
    case (Some fut)
    show ?thesis
    proof (cases "map_of fut ''status''")
      case None
      then show ?thesis by (simp add: retrieve_future_def g Some Let_def)
    next
      case st: (Some st)
      show ?thesis
      proof (cases "map_of fut ''result''")
        case None
        then show ?thesis
          by (simp add: retrieve_future_def g Some st Let_def render_json_def
              split: option.splits)
      next
        case r: (Some r)
        show ?thesis
        proof (cases r)
          case (JDict kvs)
          then show ?thesis
            by (cases kvs)
               (simp_all add: retrieve_future_def g Some st r Let_def render_json_def
                  split: option.splits)
        next
          case (JFloat x)
          then show ?thesis
            by (cases x)
               (simp_all add: retrieve_future_def g Some st r Let_def render_json_def
                  split: option.splits)
        qed (simp_all add: retrieve_future_def g Some st r Let_def render_json_def
               split: option.splits)
      qed
    qed
  qed
qed

lemma retrieve_future_lookup_fails:
  assumes "fst (get_future c rid fs) = Inl e"
  shows "fst (retrieve_future c now rid fs futures_store poll) = Unhandled e"
proof -
  obtain fs1 where g: "get_future c rid fs = (Inl e, fs1)"
    using assms by (cases "get_future c rid fs") simp
  show ?thesis by (simp add: retrieve_future_def g Let_def)
qed

text \<open>
  Claim C5, as the code has it. The request id is looked up in the storage and, when the
  storage has none, in the legacy dict; found in neither, the response is 404. Status
  \<open>completed\<close> gives 200 with the stored result as body (\<open>{}\<close> for a legacy future
  without a \<open>result\<close> key), unless the result holds \<open>nan\<close> or an infinity: then building
  the response raises \<open>ValueError\<close>. Status \<open>failed\<close> gives 500; its detail is
  \<open>result["error"]\<close> when the result is a dict with an \<open>error\<close> entry and that entry is
  truthy; when the result has no \<open>error\<close> entry, a legacy future's truthy top-level
  \<open>error\<close> entry; and \<open>Operation failed\<close> in every other case, an empty message included.
  Any other status, \<open>pending\<close> among them, gives 408. A legacy future without a
  \<open>status\<close> key raises \<open>KeyError\<close>, and an exception of the storage lookup propagates.
\<close>

theorem retrieve_future_response:
  "fst (retrieve_future c now rid fs futures_store poll) =
     (case fst (get_future c rid fs) of
        Inl e \<Rightarrow> Unhandled e
      | Inr (Some f) \<Rightarrow>
          if status f = ''completed''
          then (if json_compliant (result f) then JSONResponse (result f)
                else Unhandled (ValueError ''Out of range float values are not JSON compliant''))
          else if status f = ''failed''
          then HTTPException 500
                 (case result f of
                    JDict kvs \<Rightarrow>
                      (case map_of kvs ''error'' of
                         Some e \<Rightarrow> if truthy e then e else JStr ''Operation failed''
                       | None \<Rightarrow> JStr ''Operation failed'')
                  | _ \<Rightarrow> JStr ''Operation failed'')
          else HTTPException 408 (JStr ''Operation still in progress'')
      | Inr None \<Rightarrow>
          (case map_of futures_store rid of
             None \<Rightarrow> HTTPException 404 (JStr (''Future '' @ rid @ '' not found''))
           | Some fut \<Rightarrow>
               (case map_of fut ''status'' of
                  None \<Rightarrow> Unhandled (KeyError ''status'')
                | Some st \<Rightarrow>
                    if st = JStr ''completed''
                    then (case map_of fut ''result'' of
                            None \<Rightarrow> JSONResponse (JDict [])
                          | Some r \<Rightarrow>
                              if json_compliant r then JSONResponse r
                              else Unhandled
                                     (ValueError
                                        ''Out of range float values are not JSON compliant''))
                    else if st = JStr ''failed''
                    then HTTPException 500
                           (case (case map_of fut ''result'' of
                                    Some (JDict kvs) \<Rightarrow> map_of kvs ''error''
                                  | _ \<Rightarrow> None) of
                              Some e \<Rightarrow> if truthy e then e else JStr ''Operation failed''
                            | None \<Rightarrow>
                                (case map_of fut ''error'' of
                                   Some e \<Rightarrow> if truthy e then e else JStr ''Operation failed''
                                 | None \<Rightarrow> JStr ''Operation failed''))
                    else HTTPException 408 (JStr ''Operation still in progress''))))"
proof (cases "fst (get_future c rid fs)")
  case (Inl e)
  then show ?thesis by (simp add: retrieve_future_lookup_fails)
next
  case (Inr found)
  show ?thesis
  proof (cases found)
    case None
    with Inr have "fst (get_future c rid fs) = Inr None" by simp
    then show ?thesis by (simp add: retrieve_future_legacy)
  next
    case (Some f)
    with Inr have "fst (get_future c rid fs) = Inr (Some f)" by simp
    then show ?thesis by (simp add: retrieve_future_found)
  qed
qed

text \<open>
  A failed future with message \<open>boom\<close>, a completed one whose result holds \<open>nan\<close>, a
  legacy future with a top-level \<open>error\<close>, a legacy future without \<open>status\<close>, and an
  unknown request id.
\<close>

theorem retrieve_future_response_witness:
  "(let fs = \<lparr>memory_store =
               [(''r1'', \<lparr>request_id = ''r1'', model_id = Some ''m1'', operation = ''save'',
                          payload = JDict [], status = ''failed'',
                          result = JDict [(''error'', JStr ''boom'')],
                          created_at = ''2024-01-01T00:00:00.000100'',
                          updated_at = ''2024-01-01T00:00:05.000300''\<rparr>),
                (''r2'', \<lparr>request_id = ''r2'', model_id = Some ''m1'', operation = ''save'',
                          payload = JDict [], status = ''completed'',
                          result = JDict [(''loss'', JFloat NaN)],
                          created_at = ''2024-01-01T00:00:01.000100'',
                          updated_at = ''2024-01-01T00:00:06.000300''\<rparr>)],
              futures_table = [], db_error = None\<rparr>;
        futures_store =
          [(''old1'', [(''status'', JStr ''failed''), (''error'', JStr ''legacy boom'')]),
           (''old2'', [(''result'', JDict [])])]
    in fst (retrieve_future example_codec 0 ''r1'' fs futures_store []) =
         HTTPException 500 (JStr ''boom'')
     \<and> fst (retrieve_future example_codec 0 ''r2'' fs futures_store []) =
         Unhandled (ValueError ''Out of range float values are not JSON compliant'')
     \<and> fst (retrieve_future example_codec 0 ''old1'' fs futures_store []) =
         HTTPException 500 (JStr ''legacy boom'')
     \<and> fst (retrieve_future example_codec 0 ''old2'' fs futures_store []) =
         Unhandled (KeyError ''status'')
     \<and> fst (retrieve_future example_codec 0 ''r9'' fs futures_store []) =
         HTTPException 404 (JStr ''Future r9 not found''))"
proof -
  let ?fs = "\<lparr>memory_store =
               [(''r1'', \<lparr>request_id = ''r1'', model_id = Some ''m1'', operation = ''save'',
                          payload = JDict [], status = ''failed'',
                          result = JDict [(''error'', JStr ''boom'')],
                          created_at = ''2024-01-01T00:00:00.000100'',
                          updated_at = ''2024-01-01T00:00:05.000300''\<rparr>),
                (''r2'', \<lparr>request_id = ''r2'', model_id = Some ''m1'', operation = ''save'',
                          payload = JDict [], status = ''completed'',
                          result = JDict [(''loss'', JFloat NaN)],
                          created_at = ''2024-01-01T00:00:01.000100'',
                          updated_at = ''2024-01-01T00:00:06.000300''\<rparr>)],
              futures_table = [], db_error = None\<rparr>"
  let ?legacy = "[(''old1'', [(''status'', JStr ''failed''), (''error'', JStr ''legacy boom'')]),
           (''old2'', [(''result'', JDict [])])]"
  show ?thesis
    using retrieve_future_response [where c = example_codec and now = 0 and rid = "''r1''"
        and fs = ?fs and futures_store = ?legacy and poll = "[]"]
      retrieve_future_response [where c = example_codec and now = 0 and rid = "''r2''"
        and fs = ?fs and futures_store = ?legacy and poll = "[]"]
      retrieve_future_response [where c = example_codec and now = 0 and rid = "''old1''"
        and fs = ?fs and futures_store = ?legacy and poll = "[]"]
      retrieve_future_response [where c = example_codec and now = 0 and rid = "''old2''"
        and fs = ?fs and futures_store = ?legacy and poll = "[]"]
      retrieve_future_response [where c = example_codec and now = 0 and rid = "''r9''"
        and fs = ?fs and futures_store = ?legacy and poll = "[]"]
    by (simp add: Let_def get_future_def load_from_db_def)
qed

text \<open>
  Claim C5 as stated fails: work that raises an exception whose message is empty leaves
  the result \<open>{"error": ""}\<close>; \<open>result["error"]\<close> is present, and the detail of the 500 is
  \<open>Operation failed\<close>, not the message.
\<close>

theorem empty_error_message_replaced:
  "(let fs = futures_storage (snd (wrapped_task example_codec ''2024-01-01T00:00:05.000200''
               ''2024-01-01T00:00:05.000300'' ''r1'' (Raises (WorkException []))
               (snd (create_task example_codec ''2024-01-01T00:00:00.000100''
                       ''2024-01-01T00:00:00.000101'' ''r1'' ''save'' ''m1'' (JDict [])
                       new_manager))))
    in map_option (\<lambda>f. (status f, result f)) (map_of (memory_store fs) ''r1'') =
         Some (''failed'', JDict [(''error'', JStr [])])
     \<and> fst (retrieve_future example_codec 0 ''r1'' fs [] []) =
         HTTPException 500 (JStr ''Operation failed''))"
  by (simp add: create_task_def wrapped_task_def save_future_def update_status_def
      get_future_def retrieve_future_def new_manager_def new_storage_def Let_def
      insert_or_replace_def future_dict_def)

section \<open>get_future and the objects of the cache\<close>

lemma update_absent_key:
  "map_of xs k = None \<Longrightarrow> AList.update k v xs = xs @ [(k, v)]"
  by (induction xs) (auto split: if_splits)

lemma map_of_abstract:
  "map_of (memory_store (abstract h)) rid = map_option (deref h) (map_of (h_memory_store h) rid)"
  by (simp add: abstract_def map_of_map)

lemma load_from_db_abstract [simp]:
  "load_from_db c rid (abstract h) = load_from_db c rid (h_database h)"
  by (simp add: abstract_def)

lemma cached_address_valid:
  "heap_ok h \<Longrightarrow> map_of (h_memory_store h) rid = Some a \<Longrightarrow> a < length (h_dicts h)"
  by (auto simp add: heap_ok_def list_all_iff dest!: map_of_SomeD)

lemma dict_fields_valid:
  "heap_ok h \<Longrightarrow> a < length (h_dicts h) \<Longrightarrow>
   o_payload (h_dicts h ! a) < length (h_values h) \<and> o_result (h_dicts h ! a) < length (h_values h)"
  by (simp add: heap_ok_def list_all_length)

lemma deref_grow:
  assumes "heap_ok h" and "a < length (h_dicts h)"
  shows "deref (h\<lparr>h_values := h_values h @ vs, h_dicts := h_dicts h @ ds\<rparr>) a = deref h a"
  using dict_fields_valid [OF assms] assms(2)
  by (simp add: deref_def Let_def nth_append)

lemma abstract_grow:
  assumes "heap_ok h"
  shows "map (\<lambda>(rid, a). (rid, deref (h\<lparr>h_values := h_values h @ vs, h_dicts := h_dicts h @ ds\<rparr>) a))
            (h_memory_store h) =
         map (\<lambda>(rid, a). (rid, deref h a)) (h_memory_store h)"
proof (rule map_cong [OF refl])
  fix p assume "p \<in> set (h_memory_store h)"
  then have "snd p < length (h_dicts h)"
    using assms by (simp add: heap_ok_def list_all_iff)
  then show "(case p of (rid, a) \<Rightarrow>
               (rid, deref (h\<lparr>h_values := h_values h @ vs, h_dicts := h_dicts h @ ds\<rparr>) a)) =
             (case p of (rid, a) \<Rightarrow> (rid, deref h a))"
    by (cases p) (simp add: deref_grow [OF assms])
qed

text \<open>
  On values, \<open>get_future_h\<close> is \<open>get_future\<close>: the dict at the returned address is the
  returned future, and the store it leaves is the store \<open>get_future\<close> leaves.
\<close>

lemma get_future_h_refines:
  assumes "heap_ok h"
  shows "case get_future_h c rid h of (r, h') \<Rightarrow>
           get_future c rid (abstract h) = (map_sum id (map_option (deref h')) r, abstract h')
         \<and> heap_ok h'"
proof (cases "map_of (h_memory_store h) rid")
  case (Some a)
  let ?h' = "h\<lparr>h_dicts := h_dicts h @ [h_dicts h ! a]\<rparr>"
  have a: "a < length (h_dicts h)" by (rule cached_address_valid [OF assms Some])
  have g: "get_future_h c rid h = (Inr (Some (length (h_dicts h))), ?h')"
    by (simp add: get_future_h_def Some)
  have eq: "?h' = h\<lparr>h_values := h_values h @ [], h_dicts := h_dicts h @ [h_dicts h ! a]\<rparr>"
    by simp
  have d: "deref ?h' (length (h_dicts h)) = deref h a"
    by (simp add: deref_def Let_def)
  have ab: "abstract ?h' = abstract h"
    using abstract_grow [OF assms, where vs = "[]" and ds = "[h_dicts h ! a]"] by (simp add: abstract_def)
  have ok: "heap_ok ?h'"
    using assms a dict_fields_valid [OF assms a]
    by (auto simp add: heap_ok_def list_all_iff)
  have "get_future c rid (abstract h) = (Inr (Some (deref h a)), abstract h)"
    by (rule get_future_cached) (simp add: map_of_abstract Some)
  then show ?thesis by (simp add: g d ab ok)
next
  case None
  then have n: "map_of (memory_store (abstract h)) rid = None"
    by (simp add: map_of_abstract)
  show ?thesis
  proof (cases "load_from_db c rid (h_database h)")
    case (Inl e)
    then show ?thesis
      using assms by (simp add: get_future_h_def None get_future_uncached [OF n])
  next
    case (Inr found)
    show ?thesis
    proof (cases found)
      case None': None
      then show ?thesis
        using assms Inr by (simp add: get_future_h_def None get_future_uncached [OF n])
    next
      case (Some fut)
      let ?a = "length (h_dicts h)"
      let ?d = "\<lparr>o_request_id = request_id fut, o_model_id = model_id fut,
               o_operation = operation fut, o_payload = length (h_values h),
               o_status = status fut, o_result = Suc (length (h_values h)),
               o_created_at = created_at fut, o_updated_at = updated_at fut\<rparr>"
      let ?h1 = "h\<lparr>h_values := h_values h @ [payload fut, result fut], h_dicts := h_dicts h @ [?d]\<rparr>"
      let ?h' = "?h1\<lparr>h_memory_store := h_memory_store h @ [(rid, ?a)]\<rparr>"
      have g: "get_future_h c rid h = (Inr (Some ?a), ?h')"
        by (simp add: get_future_h_def None Inr Some alloc_future_def Let_def
            update_absent_key [OF None])
      have d: "deref ?h' ?a = fut"
        by (simp add: deref_def Let_def nth_append)
      have "map (\<lambda>(rid, a). (rid, deref ?h' a)) (h_memory_store h) =
            map (\<lambda>(rid, a). (rid, deref ?h1 a)) (h_memory_store h)"
        by (simp add: deref_def)
      also have "\<dots> = map (\<lambda>(rid, a). (rid, deref h a)) (h_memory_store h)"
        by (rule abstract_grow [OF assms])
      finally have ab: "abstract ?h' =
          (abstract h)\<lparr>memory_store := memory_store (abstract h) @ [(rid, fut)]\<rparr>"
        using d by (simp add: abstract_def)
      have ok: "heap_ok ?h'"
        using assms by (auto simp add: heap_ok_def list_all_iff)
      have "get_future c rid (abstract h) =
              (Inr (Some fut), (abstract h)\<lparr>memory_store := memory_store (abstract h) @ [(rid, fut)]\<rparr>)"
        by (simp add: get_future_uncached [OF n] Inr Some update_absent_key [OF n])
      then show ?thesis by (simp add: g d ab ok)
    qed
  qed
qed

text \<open>
  What the copy does protect: on a hit, an assignment to a key of the returned dict
  leaves the store as it is.
\<close>

lemma get_future_h_copy_is_private:
  assumes "heap_ok h" and "map_of (h_memory_store h) rid = Some a"
  shows "get_future_h c rid h =
           (Inr (Some (length (h_dicts h))), h\<lparr>h_dicts := h_dicts h @ [h_dicts h ! a]\<rparr>)
       \<and> abstract (dict_assign (length (h_dicts h)) upd
                      (h\<lparr>h_dicts := h_dicts h @ [h_dicts h ! a]\<rparr>)) = abstract h"
proof -
  have "dict_assign (length (h_dicts h)) upd (h\<lparr>h_dicts := h_dicts h @ [h_dicts h ! a]\<rparr>) =
        h\<lparr>h_values := h_values h @ [], h_dicts := h_dicts h @ [upd (h_dicts h ! a)]\<rparr>"
    by (simp add: dict_assign_def)
  then have "abstract (dict_assign (length (h_dicts h)) upd
                      (h\<lparr>h_dicts := h_dicts h @ [h_dicts h ! a]\<rparr>)) = abstract h"
    using abstract_grow [OF assms(1), where vs = "[]" and ds = "[upd (h_dicts h ! a)]"]
    by (simp add: abstract_def)
  then show ?thesis
    by (simp add: get_future_h_def assms(2))
qed

text \<open>
  Claim C3 fails at the following input. The future is in the table only. The first
  \<open>get_future\<close> returns the dict at address 0, which is the dict it has put into the
  cache: the caller's \<open>d["status"] = ...\<close> changes the cached dict, and the second
  \<open>get_future\<close> returns a copy (address 1) with the changed status. The copy shares its
  \<open>result\<close> object with the cached dict: the caller's \<open>d["result"]["x"] = 2\<close> on the copy is
  seen by the third \<open>get_future\<close>.
\<close>

theorem get_future_shares_objects_with_cache:
  "(case get_future_h example_codec ''r1'' example_heap of (r1, h1) \<Rightarrow>
    (case get_future_h example_codec ''r1''
            (dict_assign 0 (\<lambda>d. d\<lparr>o_status := ''changed by caller''\<rparr>) h1) of (r2, h2) \<Rightarrow>
     (case get_future_h example_codec ''r1''
            (nested_assign (o_result (h_dicts h2 ! 1)) (JDict [(''x'', JInt 2)]) h2) of (r3, h3) \<Rightarrow>
        r1 = Inr (Some 0)
      \<and> status (deref h1 0) = ''completed'' \<and> result (deref h1 0) = JDict [(''x'', JInt 1)]
      \<and> r2 = Inr (Some 1)
      \<and> status (deref h2 1) = ''changed by caller''
      \<and> r3 = Inr (Some 2)
      \<and> result (deref h3 2) = JDict [(''x'', JInt 2)])))"
  by (simp add: get_future_h_def example_heap_def load_from_db_def alloc_future_def
      dict_assign_def nested_assign_def deref_def Let_def example_codec_simps)

end
